theory Spec2Isabelle
  imports Main "HOL-Library.Sublist"
begin

section \<open>The documentation model of package pkgdoc\<close>

text \<open>
  The Go package \<^verbatim>\<open>pkgdoc\<close> builds a \<^verbatim>\<open>Package\<close> value from what the
  libraries \<^verbatim>\<open>go/loader\<close> and \<^verbatim>\<open>go/doc\<close> return, and then looks on the file
  system for sub-packages. Strings are byte strings, as in Go.
\<close>

type_synonym Doc = string

record Value =
  Doc :: Doc
  Decl :: string

record Function =
  Doc :: Doc
  Name :: string
  Decl :: string

record Type =
  Doc :: Doc
  Name :: string
  Decl :: string
  Constants :: "Value list"
  Variables :: "Value list"
  Functions :: "Function list"
  Methods :: "Function list"

record Package =
  Name :: string
  ImportPath :: string
  Doc :: Doc
  Synopsis :: string
  Constants :: "Value list"
  Variables :: "Value list"
  Functions :: "Function list"
  Types :: "Type list"
  SubPackages :: "string list"

subsection \<open>What the libraries hand over\<close>

text \<open>
  The fields of \<^verbatim>\<open>doc.Value\<close>, \<^verbatim>\<open>doc.Func\<close>, \<^verbatim>\<open>doc.Type\<close> and
  \<^verbatim>\<open>doc.Package\<close> that the code reads. A declaration node (\<^verbatim>\<open>*ast.GenDecl\<close>,
  \<^verbatim>\<open>*ast.FuncDecl\<close>) is a value of the type variable \<open>'n\<close>, the position table
  (\<^verbatim>\<open>*token.FileSet\<close>) a value of \<open>'f\<close>. The slices hold pointers that
  \<^verbatim>\<open>doc.New\<close> never leaves nil, so an element is the record itself.
\<close>

record 'n doc_Value =
  Doc :: string
  Decl :: 'n

record 'n doc_Func =
  Doc :: string
  Name :: string
  Decl :: 'n

record 'n doc_Type =
  Doc :: string
  Name :: string
  Decl :: 'n
  Consts :: "'n doc_Value list"
  Vars :: "'n doc_Value list"
  Funcs :: "'n doc_Func list"
  Methods :: "'n doc_Func list"

record 'n doc_Package =
  Doc :: string
  Name :: string
  ImportPath :: string
  Consts :: "'n doc_Value list"
  Types :: "'n doc_Type list"
  Vars :: "'n doc_Value list"
  Funcs :: "'n doc_Func list"

text \<open>
  Go's \<^verbatim>\<open>error\<close> values, as far as the code tells them apart: it asks only
  \<^verbatim>\<open>os.IsNotExist\<close>.
\<close>

datatype error = ErrNotExist | ErrPermission | ErrOther string

fun IsNotExist :: "error \<Rightarrow> bool" where
  "IsNotExist ErrNotExist = True"
| "IsNotExist ErrPermission = False"
| "IsNotExist (ErrOther msg) = False"

text \<open>
  A loaded program (\<^verbatim>\<open>*loader.Program\<close>), as far as \<^verbatim>\<open>New\<close> reads it: the
  position table \<^verbatim>\<open>prog.Fset\<close> and the lookup \<^verbatim>\<open>prog.Package(name)\<close>, which
  returns nil (\<open>None\<close>) when the program holds no package under that name. A
  package's information (\<^verbatim>\<open>*loader.PackageInfo\<close>) is a value of \<open>'k\<close>.
\<close>

record ('f, 'k) Program =
  prog_Fset :: 'f
  prog_Package :: "string \<Rightarrow> 'k option"

text \<open>
  The library functions \<^verbatim>\<open>New\<close> calls are parameters of the model:
  \<^item> \<open>conf_Load\<close> stands for \<^verbatim>\<open>conf.Import(name)\<close> followed by
    \<^verbatim>\<open>conf.Load()\<close>: the load error, or the program;
  \<^item> \<open>doc_New\<close> stands for lines 48 to 54: the files of the package collected by
    file name, \<^verbatim>\<open>ast.NewPackage\<close> and \<^verbatim>\<open>doc.New\<close>, which group the
    declarations;
  \<^item> \<open>doc_Synopsis\<close> is \<^verbatim>\<open>doc.Synopsis\<close>;
  \<^item> \<open>printer_Fprint\<close> is what \<^verbatim>\<open>printer.Fprint\<close> leaves in the buffer.
\<close>

record ('f, 'n, 'k) golib =
  conf_Load :: "string \<Rightarrow> error + ('f, 'k) Program"
  doc_New :: "'f \<Rightarrow> 'k \<Rightarrow> 'n doc_Package"
  doc_Synopsis :: "string \<Rightarrow> string"
  printer_Fprint :: "'f \<Rightarrow> 'n \<Rightarrow> string"

text \<open>
  A run-time panic of the Go program. The only one the code of \<^verbatim>\<open>New\<close> can raise
  itself is the nil dereference of line 49: \<^verbatim>\<open>pkg.Files\<close> is read with no test
  that \<^verbatim>\<open>prog.Package(name)\<close> found a package.
\<close>

datatype panic = NilPointerDereference

text \<open>
  \<^verbatim>\<open>Doc.HTML\<close> hands the text to \<^verbatim>\<open>doc.ToHTML\<close> and returns what that
  function wrote to the buffer. The library function is the parameter; the
  repository adds nothing to its output, so what the markup looks like is decided
  in the library alone.
\<close>

definition HTML :: "(string \<Rightarrow> string) \<Rightarrow> Doc \<Rightarrow> string" where
  "HTML doc_ToHTML d = doc_ToHTML d"

subsection \<open>Normalising the declarations\<close>

definition decl :: "('f, 'n, 'k) golib \<Rightarrow> 'n \<Rightarrow> 'f \<Rightarrow> string" where
  "decl L v fset = printer_Fprint L fset v"

definition newValue :: "('f, 'n, 'k) golib \<Rightarrow> 'n doc_Value \<Rightarrow> 'f \<Rightarrow> Value" where
  "newValue L v fset =
     \<lparr>Value.Doc = doc_Value.Doc v, Value.Decl = decl L (doc_Value.Decl v) fset\<rparr>"

definition newFunction :: "('f, 'n, 'k) golib \<Rightarrow> 'n doc_Func \<Rightarrow> 'f \<Rightarrow> Function" where
  "newFunction L f fset =
     \<lparr>Function.Doc = doc_Func.Doc f, Function.Name = doc_Func.Name f,
      Function.Decl = decl L (doc_Func.Decl f) fset\<rparr>"

text \<open>
  \<^verbatim>\<open>make([]Value, len(vs))\<close> is a slice of zero values; the loop then stores at
  each index of \<^verbatim>\<open>vs\<close> in turn.
\<close>

definition zeroValue :: Value where
  "zeroValue = \<lparr>Value.Doc = [], Value.Decl = []\<rparr>"

definition zeroFunction :: Function where
  "zeroFunction = \<lparr>Function.Doc = [], Function.Name = [], Function.Decl = []\<rparr>"

definition zeroType :: Type where
  "zeroType =
     \<lparr>Type.Doc = [], Type.Name = [], Type.Decl = [], Type.Constants = [],
      Type.Variables = [], Type.Functions = [], Type.Methods = []\<rparr>"

definition pkgValues :: "('f, 'n, 'k) golib \<Rightarrow> 'n doc_Value list \<Rightarrow> 'f \<Rightarrow> Value list" where
  "pkgValues L vs fset =
     fold (\<lambda>i rv. rv[i := newValue L (vs ! i) fset]) [0..<length vs]
       (replicate (length vs) zeroValue)"

definition pkgFunctions :: "('f, 'n, 'k) golib \<Rightarrow> 'n doc_Func list \<Rightarrow> 'f \<Rightarrow> Function list" where
  "pkgFunctions L fs fset =
     fold (\<lambda>i rv. rv[i := newFunction L (fs ! i) fset]) [0..<length fs]
       (replicate (length fs) zeroFunction)"

definition newType :: "('f, 'n, 'k) golib \<Rightarrow> 'n doc_Type \<Rightarrow> 'f \<Rightarrow> Type" where
  "newType L t fset =
     \<lparr>Type.Doc = doc_Type.Doc t, Type.Name = doc_Type.Name t,
      Type.Decl = decl L (doc_Type.Decl t) fset,
      Type.Constants = pkgValues L (doc_Type.Consts t) fset,
      Type.Variables = pkgValues L (doc_Type.Vars t) fset,
      Type.Functions = pkgFunctions L (doc_Type.Funcs t) fset,
      Type.Methods = pkgFunctions L (doc_Type.Methods t) fset\<rparr>"

definition pkgTypes :: "('f, 'n, 'k) golib \<Rightarrow> 'n doc_Type list \<Rightarrow> 'f \<Rightarrow> Type list" where
  "pkgTypes L ts fset =
     fold (\<lambda>i rv. rv[i := newType L (ts ! i) fset]) [0..<length ts]
       (replicate (length ts) zeroType)"

subsection \<open>The file system as the code sees it\<close>

text \<open>
  \<^verbatim>\<open>os.FileInfo\<close>, with the two methods the code calls.
\<close>

record FileInfo =
  Name :: string
  IsDir :: bool

text \<open>
  What the code reads from its surroundings: the two source roots of
  \<^verbatim>\<open>build.Default\<close>, the library function \<^verbatim>\<open>filepath.Join\<close>, and the
  directories as \<^verbatim>\<open>ioutil.ReadDir\<close> lists them (\<open>dir_entries\<close>: for each path the
  entries in listing order, or the error).
\<close>

record os_env =
  build_GOPATH :: string
  build_GOROOT :: string
  filepath_Join :: "string list \<Rightarrow> string"
  dir_entries :: "string \<Rightarrow> error + FileInfo list"

text \<open>
  The code only reads the file system. To say which directories a call lists, and in
  which order, every call of \<^verbatim>\<open>ioutil.ReadDir\<close> that this package makes is
  logged: the state threaded through the functions is the list of the paths listed
  so far, oldest first.
\<close>

type_synonym trace = "string list"

definition ioutil_ReadDir :: "os_env \<Rightarrow> string \<Rightarrow> trace \<Rightarrow> (error + FileInfo list) \<times> trace" where
  "ioutil_ReadDir E path tr = (dir_entries E path, tr @ [path])"

text \<open>
  \<^verbatim>\<open>filepath.Ext\<close> belongs to the Go library, not to this repository. The model
  follows the library's loop on a Unix build: scan from the last byte towards the
  first, stop at a path separator, and return the text from the first dot met.
  The second argument of \<open>Ext_loop\<close> is the library's index \<^verbatim>\<open>i\<close> plus one. Lemma
  \<open>Ext_go\<close> below shows that the only use the code makes of it, the comparison
  with \<^verbatim>\<open>".go"\<close>, holds exactly when the name ends in \<^verbatim>\<open>.go\<close>.
\<close>

definition IsPathSeparator :: "char \<Rightarrow> bool" where
  "IsPathSeparator c = (c = CHR ''/'')"

fun Ext_loop :: "string \<Rightarrow> nat \<Rightarrow> string" where
  "Ext_loop path 0 = []"
| "Ext_loop path (Suc i) =
     (if IsPathSeparator (path ! i) then []
      else if path ! i = CHR ''.'' then drop i path
      else Ext_loop path i)"

definition Ext :: "string \<Rightarrow> string" where
  "Ext path = Ext_loop path (length path)"

subsection \<open>Sub-package discovery\<close>

fun hasGoFiles_loop :: "FileInfo list \<Rightarrow> bool" where
  "hasGoFiles_loop [] = False"
| "hasGoFiles_loop (fi # fis) =
     (if Ext (FileInfo.Name fi) = ''.go'' then True else hasGoFiles_loop fis)"

text \<open>The parameter \<^verbatim>\<open>fi\<close> is shadowed in the source and never read.\<close>

definition hasGoFiles :: "os_env \<Rightarrow> string \<Rightarrow> FileInfo \<Rightarrow> trace \<Rightarrow> bool \<times> trace" where
  "hasGoFiles E path fi tr =
     (case ioutil_ReadDir E path tr of
        (Inl err, tr') \<Rightarrow> (False, tr')
      | (Inr fis, tr') \<Rightarrow> (hasGoFiles_loop fis, tr'))"

text \<open>
  The two candidate roots, lines 165 and 171: the import path under the workspace
  source root, and under the standard library source root.
\<close>

definition primary_root :: "os_env \<Rightarrow> Package \<Rightarrow> string" where
  "primary_root E p = filepath_Join E [build_GOPATH E, ''src'', Package.ImportPath p]"

definition secondary_root :: "os_env \<Rightarrow> Package \<Rightarrow> string" where
  "secondary_root E p = filepath_Join E [build_GOROOT E, ''src'', Package.ImportPath p]"

text \<open>
  Lines 165 to 176 of \<^verbatim>\<open>getSubPackages\<close>: the root that resolves and its
  entries, or the error returned.
\<close>

definition getSubPackages_root ::
  "os_env \<Rightarrow> Package \<Rightarrow> trace \<Rightarrow> (error + string \<times> FileInfo list) \<times> trace" where
  "getSubPackages_root E p tr =
     (let root = primary_root E p in
      case ioutil_ReadDir E root tr of
        (Inr fis, tr1) \<Rightarrow> (Inr (root, fis), tr1)
      | (Inl err, tr1) \<Rightarrow>
          if \<not> IsNotExist err then (Inl err, tr1)
          else
            (let root = secondary_root E p in
             case ioutil_ReadDir E root tr1 of
               (Inl err, tr2) \<Rightarrow> (Inl err, tr2)
             | (Inr fis, tr2) \<Rightarrow> (Inr (root, fis), tr2)))"

text \<open>Lines 177 to 185: the loop over the entries of the root.\<close>

fun getSubPackages_loop ::
  "os_env \<Rightarrow> string \<Rightarrow> FileInfo list \<Rightarrow> Package \<Rightarrow> trace \<Rightarrow> Package \<times> trace" where
  "getSubPackages_loop E root [] p tr = (p, tr)"
| "getSubPackages_loop E root (fi # fis) p tr =
     (if FileInfo.IsDir fi then
        (let dir = FileInfo.Name fi; path = filepath_Join E [root, dir] in
         case hasGoFiles E path fi tr of
           (b, tr') \<Rightarrow>
             if b then
               getSubPackages_loop E root fis
                 (p\<lparr>SubPackages := SubPackages p @ [dir]\<rparr>) tr'
             else getSubPackages_loop E root fis p tr')
      else getSubPackages_loop E root fis p tr)"

text \<open>
  The source takes a pointer and returns the error; the model returns the package
  as the call leaves it, the error (\<open>None\<close> for \<^verbatim>\<open>nil\<close>) and the log.
\<close>

definition getSubPackages :: "os_env \<Rightarrow> Package \<Rightarrow> trace \<Rightarrow> (Package \<times> error option) \<times> trace" where
  "getSubPackages E p tr =
     (case getSubPackages_root E p tr of
        (Inl err, tr1) \<Rightarrow> ((p, Some err), tr1)
      | (Inr (root, fis), tr1) \<Rightarrow>
          (case getSubPackages_loop E root fis p tr1 of
             (p', tr2) \<Rightarrow> ((p', None), tr2)))"

subsection \<open>The entry point\<close>

text \<open>
  \<^verbatim>\<open>Package{}\<close>: every field at its zero value. A nil slice and an empty slice
  are both the empty list.
\<close>

definition zeroPackage :: Package where
  "zeroPackage =
     \<lparr>Package.Name = [], Package.ImportPath = [], Package.Doc = [],
      Package.Synopsis = [], Package.Constants = [], Package.Variables = [],
      Package.Functions = [], Package.Types = [], SubPackages = []\<rparr>"

text \<open>The composite literal of lines 55 to 65.\<close>

definition pdoc :: "('f, 'n, 'k) golib \<Rightarrow> 'f \<Rightarrow> 'n doc_Package \<Rightarrow> Package" where
  "pdoc L fset dpkg =
     \<lparr>Package.Name = doc_Package.Name dpkg,
      Package.ImportPath = doc_Package.ImportPath dpkg,
      Package.Doc = doc_Package.Doc dpkg,
      Package.Synopsis = doc_Synopsis L (doc_Package.Doc dpkg),
      Package.Constants = pkgValues L (doc_Package.Consts dpkg) fset,
      Package.Variables = pkgValues L (doc_Package.Vars dpkg) fset,
      Package.Functions = pkgFunctions L (doc_Package.Funcs dpkg) fset,
      Package.Types = pkgTypes L (doc_Package.Types dpkg) fset,
      SubPackages = []\<rparr>"

text \<open>
  \<^verbatim>\<open>New\<close> returns a package and an error, or panics. Line 47 looks the package
  up under the name the caller gave and line 49 dereferences the result.
\<close>

definition New ::
  "('f, 'n, 'k) golib \<Rightarrow> os_env \<Rightarrow> string \<Rightarrow> trace \<Rightarrow>
   (panic + Package \<times> error option) \<times> trace" where
  "New L E name tr =
     (case conf_Load L name of
        Inl err \<Rightarrow> (Inr (zeroPackage, Some err), tr)
      | Inr prog \<Rightarrow>
          (case prog_Package prog name of
             None \<Rightarrow> (Inl NilPointerDereference, tr)
           | Some pkg \<Rightarrow>
               (let dpkg = doc_New L (prog_Fset prog) pkg in
                case getSubPackages E (pdoc L (prog_Fset prog) dpkg) tr of
                  ((p, Some err), tr') \<Rightarrow> (Inr (p, Some err), tr')
                | ((p, None), tr') \<Rightarrow> (Inr (p, None), tr'))))"

subsection \<open>The properties the discovery claims speak of\<close>

text \<open>
  What the code tests: a directory \<open>path\<close> can be listed and its listing has an
  entry, of whatever kind, whose name ends in \<^verbatim>\<open>.go\<close>.
\<close>

definition contains_go_entry :: "os_env \<Rightarrow> string \<Rightarrow> bool" where
  "contains_go_entry E path =
     (case dir_entries E path of
        Inl err \<Rightarrow> False
      | Inr es \<Rightarrow> list_ex (\<lambda>e. suffix ''.go'' (FileInfo.Name e)) es)"

text \<open>
  What the specification asks for, in its own words: the directory directly contains
  at least one file whose name ends in \<^verbatim>\<open>.go\<close>. A file is an entry that is not a
  directory.
\<close>

definition contains_go_file :: "os_env \<Rightarrow> string \<Rightarrow> bool" where
  "contains_go_file E path =
     (case dir_entries E path of
        Inl err \<Rightarrow> False
      | Inr es \<Rightarrow>
          list_ex (\<lambda>e. \<not> FileInfo.IsDir e \<and> suffix ''.go'' (FileInfo.Name e)) es)"

subsection \<open>A concrete file system and a concrete library\<close>

text \<open>
  The workspace root holds package \<^verbatim>\<open>p\<close> with the directories \<^verbatim>\<open>a\<close> (one Go
  file), \<^verbatim>\<open>b\<close> (empty), \<^verbatim>\<open>c\<close> (a README only), \<^verbatim>\<open>d\<close> (unreadable) and
  \<^verbatim>\<open>e\<close> (only a directory named \<^verbatim>\<open>nats.go\<close>), and the file \<^verbatim>\<open>main.go\<close>.
  Package \<^verbatim>\<open>q\<close> lives under the standard library root only, \<^verbatim>\<open>r\<close> under
  neither, and the workspace directory of \<^verbatim>\<open>s\<close> is unreadable. Every listing is
  sorted by name, as \<^verbatim>\<open>ioutil.ReadDir\<close> returns it.
\<close>

definition example_Join :: "string list \<Rightarrow> string" where
  "example_Join elems = foldr (\<lambda>a b. if b = [] then a else a @ CHR ''/'' # b) elems []"

definition example_entries :: "string \<Rightarrow> error + FileInfo list" where
  "example_entries path =
     (if path = ''/go/src/p'' then
        Inr [\<lparr>Name = ''a'', IsDir = True\<rparr>, \<lparr>Name = ''b'', IsDir = True\<rparr>,
             \<lparr>Name = ''c'', IsDir = True\<rparr>, \<lparr>Name = ''d'', IsDir = True\<rparr>,
             \<lparr>Name = ''e'', IsDir = True\<rparr>, \<lparr>Name = ''main.go'', IsDir = False\<rparr>]
      else if path = ''/go/src/p/a'' then Inr [\<lparr>Name = ''x.go'', IsDir = False\<rparr>]
      else if path = ''/go/src/p/b'' then Inr []
      else if path = ''/go/src/p/c'' then Inr [\<lparr>Name = ''README'', IsDir = False\<rparr>]
      else if path = ''/go/src/p/d'' then Inl ErrPermission
      else if path = ''/go/src/p/e'' then Inr [\<lparr>Name = ''nats.go'', IsDir = True\<rparr>]
      else if path = ''/usr/go/src/q'' then Inr [\<lparr>Name = ''sub'', IsDir = True\<rparr>]
      else if path = ''/usr/go/src/q/sub'' then Inr [\<lparr>Name = ''y.go'', IsDir = False\<rparr>]
      else if path = ''/go/src/s'' then Inl ErrPermission
      else if path = ''/usr/go/src/s'' then Inr [\<lparr>Name = ''t'', IsDir = True\<rparr>]
      else if path = ''/usr/go/src/s/t'' then Inr [\<lparr>Name = ''z.go'', IsDir = False\<rparr>]
      else Inl ErrNotExist)"

definition example_env :: os_env where
  "example_env =
     \<lparr>build_GOPATH = ''/go'', build_GOROOT = ''/usr/go'',
      filepath_Join = example_Join, dir_entries = example_entries\<rparr>"

definition example_pkg :: "string \<Rightarrow> Package" where
  "example_pkg path = zeroPackage\<lparr>Package.ImportPath := path\<rparr>"

text \<open>
  A library whose declaration nodes are their own source text, whose position table
  is empty and whose package information is the canonical import path. Loading
  succeeds for \<^verbatim>\<open>p\<close>, \<^verbatim>\<open>r\<close> and the relative path \<^verbatim>\<open>./sub\<close>; the program
  holds its packages under their canonical paths \<^verbatim>\<open>p\<close>, \<^verbatim>\<open>r\<close> and
  \<^verbatim>\<open>x/sub\<close>. The synopsis function is a stand-in.
\<close>

definition example_consts :: "string doc_Value list" where
  "example_consts =
     [\<lparr>doc_Value.Doc = ''A is first.'', doc_Value.Decl = ''const A = 1''\<rparr>,
      \<lparr>doc_Value.Doc = ''B is second.'', doc_Value.Decl = ''const B = 2''\<rparr>]"

definition example_funcs :: "string doc_Func list" where
  "example_funcs =
     [\<lparr>doc_Func.Doc = ''F runs.'', doc_Func.Name = ''F'', doc_Func.Decl = ''func F()''\<rparr>,
      \<lparr>doc_Func.Doc = ''G stops.'', doc_Func.Name = ''G'', doc_Func.Decl = ''func G()''\<rparr>]"

definition example_type :: "string doc_Type" where
  "example_type =
     \<lparr>doc_Type.Doc = ''T is a type.'', doc_Type.Name = ''T'',
      doc_Type.Decl = ''type T int'', doc_Type.Consts = example_consts,
      doc_Type.Vars = [], doc_Type.Funcs = [], doc_Type.Methods = example_funcs\<rparr>"

definition example_dpkg :: "string \<Rightarrow> string doc_Package" where
  "example_dpkg path =
     \<lparr>doc_Package.Doc = ''Package p does things.'', doc_Package.Name = ''p'',
      doc_Package.ImportPath = path, doc_Package.Consts = example_consts,
      doc_Package.Types = [example_type], doc_Package.Vars = [],
      doc_Package.Funcs = example_funcs\<rparr>"

definition example_prog :: "(unit, string) Program" where
  "example_prog =
     \<lparr>prog_Fset = (),
      prog_Package =
        (\<lambda>name. if name = ''p'' \<or> name = ''r'' \<or> name = ''x/sub'' then Some name
                 else None)\<rparr>"

definition example_lib :: "(unit, string, string) golib" where
  "example_lib =
     \<lparr>conf_Load =
        (\<lambda>name. if name = ''p'' \<or> name = ''r'' \<or> name = ''./sub'' then Inr example_prog
                 else Inl (ErrOther ''cannot find package'')),
      doc_New = (\<lambda>fset pkg. example_dpkg pkg),
      doc_Synopsis = (\<lambda>comment. comment),
      printer_Fprint = (\<lambda>fset node. node)\<rparr>"

section \<open>Facts about sub-package discovery\<close>

subsection \<open>The extension test\<close>

lemma Ext_loop_suffix: "suffix (Ext_loop path k) path"
  by (induction k) (simp_all add: suffix_drop)

lemma Ext_go_append: "Ext (pre @ ''.go'') = ''.go''"
proof -
  have len: "length (pre @ ''.go'') = Suc (Suc (Suc (length pre)))" by simp
  have o: "(pre @ ''.go'') ! Suc (Suc (length pre)) = CHR ''o''"
    by (simp add: nth_append)
  have g: "(pre @ ''.go'') ! Suc (length pre) = CHR ''g''"
    by (simp add: nth_append)
  have d: "(pre @ ''.go'') ! length pre = CHR ''.''"
    by (simp add: nth_append)
  show ?thesis
    unfolding Ext_def len by (simp add: o g d IsPathSeparator_def)
qed

lemma Ext_go: "Ext name = ''.go'' \<longleftrightarrow> suffix ''.go'' name"
proof
  assume "Ext name = ''.go''"
  then show "suffix ''.go'' name"
    using Ext_loop_suffix [of name "length name"] by (simp add: Ext_def)
next
  assume "suffix ''.go'' name"
  then obtain pre where "name = pre @ ''.go''" by (auto simp: suffix_def)
  then show "Ext name = ''.go''" by (simp only: Ext_go_append)
qed

lemma hasGoFiles_loop_ex:
  "hasGoFiles_loop fis = list_ex (\<lambda>e. suffix ''.go'' (FileInfo.Name e)) fis"
  by (induction fis) (simp_all add: Ext_go)

lemma hasGoFiles_eq:
  "hasGoFiles E path fi tr = (contains_go_entry E path, tr @ [path])"
  by (simp add: hasGoFiles_def ioutil_ReadDir_def contains_go_entry_def hasGoFiles_loop_ex
      split: sum.splits)

subsection \<open>The loop and the whole function\<close>

lemma getSubPackages_loop_eq:
  "getSubPackages_loop E root fis p tr =
     (p\<lparr>SubPackages := SubPackages p @
          map FileInfo.Name
            (filter (\<lambda>fi. FileInfo.IsDir fi \<and>
                 contains_go_entry E (filepath_Join E [root, FileInfo.Name fi])) fis)\<rparr>,
      tr @ map (\<lambda>fi. filepath_Join E [root, FileInfo.Name fi]) (filter FileInfo.IsDir fis))"
  by (induction fis arbitrary: p tr) (simp_all add: hasGoFiles_eq Let_def)

lemma getSubPackages_eq:
  "getSubPackages E p tr =
     (case getSubPackages_root E p tr of
        (Inl err, tr1) \<Rightarrow> ((p, Some err), tr1)
      | (Inr (root, fis), tr1) \<Rightarrow>
          ((p\<lparr>SubPackages := SubPackages p @
               map FileInfo.Name
                 (filter (\<lambda>fi. FileInfo.IsDir fi \<and>
                      contains_go_entry E (filepath_Join E [root, FileInfo.Name fi])) fis)\<rparr>,
            None),
           tr1 @ map (\<lambda>fi. filepath_Join E [root, FileInfo.Name fi])
                   (filter FileInfo.IsDir fis)))"
  by (simp add: getSubPackages_def getSubPackages_loop_eq split: sum.splits prod.splits)

lemma getSubPackages_root_cases:
  "getSubPackages_root E p tr =
     (case dir_entries E (primary_root E p) of
        Inr fis \<Rightarrow> (Inr (primary_root E p, fis), tr @ [primary_root E p])
      | Inl e1 \<Rightarrow>
          if \<not> IsNotExist e1 then (Inl e1, tr @ [primary_root E p])
          else (case dir_entries E (secondary_root E p) of
                  Inl e2 \<Rightarrow> (Inl e2, tr @ [primary_root E p, secondary_root E p])
                | Inr fis \<Rightarrow>
                    (Inr (secondary_root E p, fis),
                     tr @ [primary_root E p, secondary_root E p])))"
  by (simp add: getSubPackages_root_def ioutil_ReadDir_def Let_def split: sum.splits)

subsection \<open>Evaluating the concrete file system\<close>

lemma example_entries_simps:
  "example_entries ''/go/src/p'' =
     Inr [\<lparr>Name = ''a'', IsDir = True\<rparr>, \<lparr>Name = ''b'', IsDir = True\<rparr>,
          \<lparr>Name = ''c'', IsDir = True\<rparr>, \<lparr>Name = ''d'', IsDir = True\<rparr>,
          \<lparr>Name = ''e'', IsDir = True\<rparr>, \<lparr>Name = ''main.go'', IsDir = False\<rparr>]"
  "example_entries ''/go/src/p/a'' = Inr [\<lparr>Name = ''x.go'', IsDir = False\<rparr>]"
  "example_entries ''/go/src/p/b'' = Inr []"
  "example_entries ''/go/src/p/c'' = Inr [\<lparr>Name = ''README'', IsDir = False\<rparr>]"
  "example_entries ''/go/src/p/d'' = Inl ErrPermission"
  "example_entries ''/go/src/p/e'' = Inr [\<lparr>Name = ''nats.go'', IsDir = True\<rparr>]"
  "example_entries ''/go/src/q'' = Inl ErrNotExist"
  "example_entries ''/usr/go/src/q'' = Inr [\<lparr>Name = ''sub'', IsDir = True\<rparr>]"
  "example_entries ''/usr/go/src/q/sub'' = Inr [\<lparr>Name = ''y.go'', IsDir = False\<rparr>]"
  "example_entries ''/go/src/r'' = Inl ErrNotExist"
  "example_entries ''/usr/go/src/r'' = Inl ErrNotExist"
  "example_entries ''/go/src/s'' = Inl ErrPermission"
  "example_entries ''/usr/go/src/s'' = Inr [\<lparr>Name = ''t'', IsDir = True\<rparr>]"
  by (simp_all add: example_entries_def)

lemma example_Join_simps:
  "example_Join [''/go'', ''src'', ''p''] = ''/go/src/p''"
  "example_Join [''/go'', ''src'', ''q''] = ''/go/src/q''"
  "example_Join [''/go'', ''src'', ''r''] = ''/go/src/r''"
  "example_Join [''/go'', ''src'', ''s''] = ''/go/src/s''"
  "example_Join [''/usr/go'', ''src'', ''q''] = ''/usr/go/src/q''"
  "example_Join [''/usr/go'', ''src'', ''r''] = ''/usr/go/src/r''"
  "example_Join [''/usr/go'', ''src'', ''s''] = ''/usr/go/src/s''"
  "example_Join [''/go/src/p'', ''a''] = ''/go/src/p/a''"
  "example_Join [''/go/src/p'', ''b''] = ''/go/src/p/b''"
  "example_Join [''/go/src/p'', ''c''] = ''/go/src/p/c''"
  "example_Join [''/go/src/p'', ''d''] = ''/go/src/p/d''"
  "example_Join [''/go/src/p'', ''e''] = ''/go/src/p/e''"
  "example_Join [''/usr/go/src/q'', ''sub''] = ''/usr/go/src/q/sub''"
  by (simp_all add: example_Join_def)

lemma example_env_simps:
  "build_GOPATH example_env = ''/go''"
  "build_GOROOT example_env = ''/usr/go''"
  "filepath_Join example_env = example_Join"
  "dir_entries example_env = example_entries"
  by (simp_all add: example_env_def)

lemma example_pkg_simps:
  "Package.ImportPath (example_pkg path) = path"
  "SubPackages (example_pkg path) = []"
  by (simp_all add: example_pkg_def zeroPackage_def)

lemma example_roots:
  "Package.ImportPath pk = ''p'' \<Longrightarrow> primary_root example_env pk = ''/go/src/p''"
  "Package.ImportPath pk = ''q'' \<Longrightarrow> primary_root example_env pk = ''/go/src/q''"
  "Package.ImportPath pk = ''r'' \<Longrightarrow> primary_root example_env pk = ''/go/src/r''"
  "Package.ImportPath pk = ''s'' \<Longrightarrow> primary_root example_env pk = ''/go/src/s''"
  "Package.ImportPath pk = ''q'' \<Longrightarrow> secondary_root example_env pk = ''/usr/go/src/q''"
  "Package.ImportPath pk = ''r'' \<Longrightarrow> secondary_root example_env pk = ''/usr/go/src/r''"
  "Package.ImportPath pk = ''s'' \<Longrightarrow> secondary_root example_env pk = ''/usr/go/src/s''"
  by (simp_all add: primary_root_def secondary_root_def example_env_simps example_Join_simps)

lemma example_contains:
  "contains_go_entry example_env ''/go/src/p/a''"
  "\<not> contains_go_entry example_env ''/go/src/p/b''"
  "\<not> contains_go_entry example_env ''/go/src/p/c''"
  "\<not> contains_go_entry example_env ''/go/src/p/d''"
  "contains_go_entry example_env ''/go/src/p/e''"
  "contains_go_entry example_env ''/usr/go/src/q/sub''"
  by (simp_all add: contains_go_entry_def example_env_simps example_entries_simps
      suffix_to_prefix)

lemma example_contains_file:
  "contains_go_file example_env ''/go/src/p/a''"
  "\<not> contains_go_file example_env ''/go/src/p/e''"
  by (simp_all add: contains_go_file_def example_env_simps example_entries_simps
      suffix_to_prefix)

lemma example_root_p:
  "Package.ImportPath pk = ''p'' \<Longrightarrow>
   getSubPackages_root example_env pk tr =
     (Inr (''/go/src/p'',
        [\<lparr>Name = ''a'', IsDir = True\<rparr>, \<lparr>Name = ''b'', IsDir = True\<rparr>,
         \<lparr>Name = ''c'', IsDir = True\<rparr>, \<lparr>Name = ''d'', IsDir = True\<rparr>,
         \<lparr>Name = ''e'', IsDir = True\<rparr>, \<lparr>Name = ''main.go'', IsDir = False\<rparr>]),
      tr @ [''/go/src/p''])"
  by (simp add: getSubPackages_root_cases example_roots example_env_simps
      example_entries_simps)

lemma example_root_q:
  "Package.ImportPath pk = ''q'' \<Longrightarrow>
   getSubPackages_root example_env pk tr =
     (Inr (''/usr/go/src/q'', [\<lparr>Name = ''sub'', IsDir = True\<rparr>]),
      tr @ [''/go/src/q'', ''/usr/go/src/q''])"
  by (simp add: getSubPackages_root_cases example_roots example_env_simps
      example_entries_simps)

lemma example_root_r:
  "Package.ImportPath pk = ''r'' \<Longrightarrow>
   getSubPackages_root example_env pk tr =
     (Inl ErrNotExist, tr @ [''/go/src/r'', ''/usr/go/src/r''])"
  by (simp add: getSubPackages_root_cases example_roots example_env_simps
      example_entries_simps)

lemma example_discovery_p:
  "Package.ImportPath pk = ''p'' \<Longrightarrow>
   fst (getSubPackages example_env pk tr) =
     (pk\<lparr>SubPackages := SubPackages pk @ [''a'', ''e'']\<rparr>, None)"
  by (simp add: getSubPackages_eq example_root_p example_env_simps example_Join_simps
      example_contains)

lemma example_discovery_r:
  "Package.ImportPath pk = ''r'' \<Longrightarrow>
   fst (getSubPackages example_env pk tr) = (pk, Some ErrNotExist)"
  by (simp add: getSubPackages_eq example_root_r)


section \<open>The claims about discovery\<close>

text \<open>
  What a call records, exactly. Whenever a root resolves, with entries \<open>fis\<close>, the
  call appends to \<^verbatim>\<open>SubPackages\<close>, in listing order, the bare name (never the
  joined path) of those entries of the root that are directories and whose own
  listing succeeds and holds at least one entry whose name ends in \<^verbatim>\<open>.go\<close>. The
  test reads the names of a subdirectory's entries and never their kind.
\<close>

lemma getSubPackages_records:
  "getSubPackages_root E p tr = (Inr (root, fis), tr1) \<Longrightarrow>
   SubPackages (fst (fst (getSubPackages E p tr))) =
     SubPackages p @
     map FileInfo.Name
       (filter (\<lambda>fi. FileInfo.IsDir fi \<and>
            contains_go_entry E (filepath_Join E [root, FileInfo.Name fi])) fis)"
  by (simp add: getSubPackages_eq)

text \<open>
  Where no listed subdirectory holds a directory whose name ends in \<^verbatim>\<open>.go\<close>, the
  two tests agree and the call records what the specification asks for.
\<close>

lemma contains_go_entry_file:
  "contains_go_file E path \<Longrightarrow> contains_go_entry E path"
  by (auto simp add: contains_go_file_def contains_go_entry_def list_ex_iff split: sum.splits)

lemma getSubPackages_records_files:
  assumes root: "getSubPackages_root E p tr = (Inr (root, fis), tr1)"
    and nodirs: "\<And>fi. fi \<in> set fis \<Longrightarrow> FileInfo.IsDir fi \<Longrightarrow>
        contains_go_entry E (filepath_Join E [root, FileInfo.Name fi]) \<Longrightarrow>
        contains_go_file E (filepath_Join E [root, FileInfo.Name fi])"
  shows "SubPackages (fst (fst (getSubPackages E p tr))) =
     SubPackages p @
     map FileInfo.Name
       (filter (\<lambda>fi. FileInfo.IsDir fi \<and>
            contains_go_file E (filepath_Join E [root, FileInfo.Name fi])) fis)"
proof -
  have "filter (\<lambda>fi. FileInfo.IsDir fi \<and>
            contains_go_entry E (filepath_Join E [root, FileInfo.Name fi])) fis =
        filter (\<lambda>fi. FileInfo.IsDir fi \<and>
            contains_go_file E (filepath_Join E [root, FileInfo.Name fi])) fis"
    using nodirs contains_go_entry_file by (intro filter_cong) auto
  with getSubPackages_records [OF root] show ?thesis by simp
qed

text \<open>
  C1. The claim: a directory of the root is recorded if and only if it directly
  contains at least one file whose name ends in \<^verbatim>\<open>.go\<close>. The code breaks the
  "only if". In the concrete file system the directory \<^verbatim>\<open>e\<close> of package
  \<^verbatim>\<open>p\<close> holds a single entry, the directory \<^verbatim>\<open>nats.go\<close>, and so no file at
  all; yet \<^verbatim>\<open>hasGoFiles\<close> answers true for it and the call records \<^verbatim>\<open>e\<close>
  next to \<^verbatim>\<open>a\<close>, the one directory that does hold a Go file.
\<close>

theorem getSubPackages_records_directory_named_go:
  "dir_entries example_env (filepath_Join example_env [''/go/src/p'', ''e'']) =
     Inr [\<lparr>Name = ''nats.go'', IsDir = True\<rparr>] \<and>
   \<not> contains_go_file example_env (filepath_Join example_env [''/go/src/p'', ''e'']) \<and>
   fst (hasGoFiles example_env (filepath_Join example_env [''/go/src/p'', ''e''])
          \<lparr>Name = ''e'', IsDir = True\<rparr> []) \<and>
   fst (getSubPackages example_env (example_pkg ''p'') []) =
     ((example_pkg ''p'')\<lparr>SubPackages := [''a'', ''e'']\<rparr>, None)"
  by (simp add: example_discovery_p example_env_simps example_pkg_simps hasGoFiles_eq
      example_Join_simps example_entries_simps example_contains example_contains_file)

text \<open>
  C3. Discovery always lists the primary root first (the workspace source root joined
  with \<^verbatim>\<open>src\<close> and the import path). If that listing succeeds, its entries are
  the ones scanned and nothing else is consulted. If it fails because the directory
  does not exist, the secondary root (the standard library source root joined with the
  same import path) is listed next and, when that succeeds, scanned. When neither
  root can be listed, the caller gets a listing error, the package untouched: the
  secondary root's error after a fallback, the primary root's otherwise.
\<close>

theorem getSubPackages_root_fallback:
  "(\<exists>rest. snd (getSubPackages E p tr) = tr @ primary_root E p # rest) \<and>
   (dir_entries E (primary_root E p) = Inr fis \<longrightarrow>
      getSubPackages_root E p tr = (Inr (primary_root E p, fis), tr @ [primary_root E p])) \<and>
   (dir_entries E (primary_root E p) = Inl e1 \<and> IsNotExist e1 \<and>
    dir_entries E (secondary_root E p) = Inr fis \<longrightarrow>
      getSubPackages_root E p tr =
        (Inr (secondary_root E p, fis), tr @ [primary_root E p, secondary_root E p])) \<and>
   (dir_entries E (primary_root E p) = Inl e1 \<and>
    dir_entries E (secondary_root E p) = Inl e2 \<longrightarrow>
      fst (getSubPackages E p tr) = (p, Some (if IsNotExist e1 then e2 else e1)))"
proof -
  have first: "\<exists>rest. snd (getSubPackages E p tr) = tr @ primary_root E p # rest"
    by (simp add: getSubPackages_eq getSubPackages_root_cases split: sum.splits)
  have rest: "dir_entries E (primary_root E p) = Inr fis \<longrightarrow>
      getSubPackages_root E p tr = (Inr (primary_root E p, fis), tr @ [primary_root E p])"
    "dir_entries E (primary_root E p) = Inl e1 \<and> IsNotExist e1 \<and>
     dir_entries E (secondary_root E p) = Inr fis \<longrightarrow>
      getSubPackages_root E p tr =
        (Inr (secondary_root E p, fis), tr @ [primary_root E p, secondary_root E p])"
    "dir_entries E (primary_root E p) = Inl e1 \<and>
     dir_entries E (secondary_root E p) = Inl e2 \<longrightarrow>
      fst (getSubPackages E p tr) = (p, Some (if IsNotExist e1 then e2 else e1))"
    by (simp_all add: getSubPackages_eq getSubPackages_root_cases)
  from first rest show ?thesis by blast
qed

theorem getSubPackages_root_fallback_witness:
  "dir_entries example_env (primary_root example_env (example_pkg ''p'')) =
     Inr [\<lparr>Name = ''a'', IsDir = True\<rparr>, \<lparr>Name = ''b'', IsDir = True\<rparr>,
          \<lparr>Name = ''c'', IsDir = True\<rparr>, \<lparr>Name = ''d'', IsDir = True\<rparr>,
          \<lparr>Name = ''e'', IsDir = True\<rparr>, \<lparr>Name = ''main.go'', IsDir = False\<rparr>] \<and>
   getSubPackages_root example_env (example_pkg ''p'') [] =
     (Inr (''/go/src/p'',
        [\<lparr>Name = ''a'', IsDir = True\<rparr>, \<lparr>Name = ''b'', IsDir = True\<rparr>,
         \<lparr>Name = ''c'', IsDir = True\<rparr>, \<lparr>Name = ''d'', IsDir = True\<rparr>,
         \<lparr>Name = ''e'', IsDir = True\<rparr>, \<lparr>Name = ''main.go'', IsDir = False\<rparr>]),
      [''/go/src/p'']) \<and>
   dir_entries example_env (primary_root example_env (example_pkg ''q'')) = Inl ErrNotExist \<and>
   IsNotExist ErrNotExist \<and>
   dir_entries example_env (secondary_root example_env (example_pkg ''q'')) =
     Inr [\<lparr>Name = ''sub'', IsDir = True\<rparr>] \<and>
   getSubPackages_root example_env (example_pkg ''q'') [] =
     (Inr (''/usr/go/src/q'', [\<lparr>Name = ''sub'', IsDir = True\<rparr>]),
      [''/go/src/q'', ''/usr/go/src/q'']) \<and>
   dir_entries example_env (primary_root example_env (example_pkg ''r'')) = Inl ErrNotExist \<and>
   dir_entries example_env (secondary_root example_env (example_pkg ''r'')) = Inl ErrNotExist \<and>
   fst (getSubPackages example_env (example_pkg ''r'') []) =
     (example_pkg ''r'', Some ErrNotExist)"
proof -
  have p1: "dir_entries example_env (primary_root example_env (example_pkg ''p'')) =
     Inr [\<lparr>Name = ''a'', IsDir = True\<rparr>, \<lparr>Name = ''b'', IsDir = True\<rparr>,
          \<lparr>Name = ''c'', IsDir = True\<rparr>, \<lparr>Name = ''d'', IsDir = True\<rparr>,
          \<lparr>Name = ''e'', IsDir = True\<rparr>, \<lparr>Name = ''main.go'', IsDir = False\<rparr>]"
    by (simp add: example_roots example_pkg_simps example_env_simps example_entries_simps)
  have q1: "dir_entries example_env (primary_root example_env (example_pkg ''q'')) =
      Inl ErrNotExist \<and> IsNotExist ErrNotExist \<and>
      dir_entries example_env (secondary_root example_env (example_pkg ''q'')) =
      Inr [\<lparr>Name = ''sub'', IsDir = True\<rparr>]"
    by (simp add: example_roots example_pkg_simps example_env_simps example_entries_simps)
  have r1: "dir_entries example_env (primary_root example_env (example_pkg ''r'')) =
      Inl ErrNotExist \<and>
      dir_entries example_env (secondary_root example_env (example_pkg ''r'')) =
      Inl ErrNotExist"
    by (simp add: example_roots example_pkg_simps example_env_simps example_entries_simps)
  note at_p = getSubPackages_root_fallback [where E = example_env
      and p = "example_pkg ''p''" and tr = "[]", THEN conjunct2, THEN conjunct1, rule_format,
      OF p1]
  note at_q = getSubPackages_root_fallback [where E = example_env
      and p = "example_pkg ''q''" and tr = "[]", THEN conjunct2, THEN conjunct2,
      THEN conjunct1, rule_format, OF q1]
  note at_r = getSubPackages_root_fallback [where E = example_env
      and p = "example_pkg ''r''" and tr = "[]", THEN conjunct2, THEN conjunct2,
      THEN conjunct2, rule_format, OF r1]
  from p1 q1 r1 at_p at_q at_r show ?thesis
    by (simp add: example_roots example_pkg_simps)
qed

text \<open>
  C9. If listing the primary root fails with an error that is not a non-existence
  error, \<^verbatim>\<open>getSubPackages\<close> returns that very error with the package untouched,
  and the log grows by the primary root alone: the secondary root is never listed,
  whatever it holds.
\<close>

theorem getSubPackages_primary_error_is_final:
  "dir_entries E (primary_root E p) = Inl err \<Longrightarrow> \<not> IsNotExist err \<Longrightarrow>
   getSubPackages E p tr = ((p, Some err), tr @ [primary_root E p])"
  by (simp add: getSubPackages_eq getSubPackages_root_cases)

theorem getSubPackages_primary_error_is_final_witness:
  "dir_entries example_env (primary_root example_env (example_pkg ''s'')) = Inl ErrPermission \<and>
   \<not> IsNotExist ErrPermission \<and>
   dir_entries example_env (secondary_root example_env (example_pkg ''s'')) =
     Inr [\<lparr>Name = ''t'', IsDir = True\<rparr>] \<and>
   getSubPackages example_env (example_pkg ''s'') [] =
     ((example_pkg ''s'', Some ErrPermission), [''/go/src/s''])"
proof -
  have h1: "dir_entries example_env (primary_root example_env (example_pkg ''s'')) =
      Inl ErrPermission"
    by (simp add: example_roots example_pkg_simps example_env_simps example_entries_simps)
  have h2: "\<not> IsNotExist ErrPermission" by simp
  have listable: "dir_entries example_env (secondary_root example_env (example_pkg ''s'')) =
      Inr [\<lparr>Name = ''t'', IsDir = True\<rparr>]"
    by (simp add: example_roots example_pkg_simps example_env_simps example_entries_simps)
  from getSubPackages_primary_error_is_final [OF h1 h2, of "[]"]
  have "getSubPackages example_env (example_pkg ''s'') [] =
      ((example_pkg ''s'', Some ErrPermission), [''/go/src/s''])"
    by (simp add: example_roots example_pkg_simps)
  with h1 h2 listable show ?thesis by simp
qed

text \<open>
  C8. Let \<open>fi\<close> be a directory among the entries of the resolved root whose own
  listing fails. Then \<^verbatim>\<open>hasGoFiles\<close> answers false for it, the call as a whole
  still returns no error, and \<^verbatim>\<open>SubPackages\<close> receives exactly what the entries
  before \<open>fi\<close> and the entries after \<open>fi\<close> contribute: \<open>fi\<close> adds nothing
  and the scan goes on past it. The log shows the same: after the root, the
  directories before \<open>fi\<close>, then \<open>fi\<close> itself, then the directories after it
  are listed.
\<close>

theorem hasGoFiles_listing_error_skipped:
  "FileInfo.IsDir fi \<Longrightarrow>
   dir_entries E (filepath_Join E [root, FileInfo.Name fi]) = Inl err \<Longrightarrow>
   getSubPackages_root E p tr = (Inr (root, before @ fi # after), tr1) \<Longrightarrow>
   \<not> fst (hasGoFiles E (filepath_Join E [root, FileInfo.Name fi]) fi tr2) \<and>
   snd (fst (getSubPackages E p tr)) = None \<and>
   SubPackages (fst (fst (getSubPackages E p tr))) =
     SubPackages p @
     map FileInfo.Name
       (filter (\<lambda>fi. FileInfo.IsDir fi \<and>
            contains_go_entry E (filepath_Join E [root, FileInfo.Name fi])) before) @
     map FileInfo.Name
       (filter (\<lambda>fi. FileInfo.IsDir fi \<and>
            contains_go_entry E (filepath_Join E [root, FileInfo.Name fi])) after) \<and>
   snd (getSubPackages E p tr) =
     tr1 @
     map (\<lambda>fi. filepath_Join E [root, FileInfo.Name fi]) (filter FileInfo.IsDir before) @
     filepath_Join E [root, FileInfo.Name fi] #
     map (\<lambda>fi. filepath_Join E [root, FileInfo.Name fi]) (filter FileInfo.IsDir after)"
  by (simp add: getSubPackages_eq hasGoFiles_eq contains_go_entry_def)

theorem hasGoFiles_listing_error_skipped_witness:
  "FileInfo.IsDir \<lparr>Name = ''d'', IsDir = True\<rparr> \<and>
   dir_entries example_env
     (filepath_Join example_env [''/go/src/p'', FileInfo.Name \<lparr>Name = ''d'', IsDir = True\<rparr>]) =
     Inl ErrPermission \<and>
   \<not> fst (hasGoFiles example_env ''/go/src/p/d'' \<lparr>Name = ''d'', IsDir = True\<rparr> []) \<and>
   snd (fst (getSubPackages example_env (example_pkg ''p'') [])) = None \<and>
   SubPackages (fst (fst (getSubPackages example_env (example_pkg ''p'') []))) = [''a'', ''e''] \<and>
   snd (getSubPackages example_env (example_pkg ''p'') []) =
     [''/go/src/p'', ''/go/src/p/a'', ''/go/src/p/b'', ''/go/src/p/c'', ''/go/src/p/d'',
      ''/go/src/p/e'']"
proof -
  have h1: "FileInfo.IsDir \<lparr>Name = ''d'', IsDir = True\<rparr>" by simp
  have h2: "dir_entries example_env
      (filepath_Join example_env [''/go/src/p'', FileInfo.Name \<lparr>Name = ''d'', IsDir = True\<rparr>]) =
      Inl ErrPermission"
    by (simp add: example_env_simps example_Join_simps example_entries_simps)
  have h3: "getSubPackages_root example_env (example_pkg ''p'') [] =
     (Inr (''/go/src/p'',
        [\<lparr>Name = ''a'', IsDir = True\<rparr>, \<lparr>Name = ''b'', IsDir = True\<rparr>,
         \<lparr>Name = ''c'', IsDir = True\<rparr>] @
        \<lparr>Name = ''d'', IsDir = True\<rparr> #
        [\<lparr>Name = ''e'', IsDir = True\<rparr>, \<lparr>Name = ''main.go'', IsDir = False\<rparr>]),
      [''/go/src/p''])"
    by (simp add: example_root_p example_pkg_simps)
  from hasGoFiles_listing_error_skipped [OF h1 h2 h3, of "[]"] h1 h2
  show ?thesis
    by (simp add: example_pkg_simps example_env_simps example_Join_simps example_contains)
qed

text \<open>
  C10. For every package and every file system, the package that
  \<^verbatim>\<open>getSubPackages\<close> leaves behind has the \<^verbatim>\<open>Name\<close>, \<^verbatim>\<open>ImportPath\<close>,
  \<^verbatim>\<open>Doc\<close>, \<^verbatim>\<open>Synopsis\<close>, \<^verbatim>\<open>Constants\<close>, \<^verbatim>\<open>Variables\<close>,
  \<^verbatim>\<open>Functions\<close> and \<^verbatim>\<open>Types\<close> it was given, whether the call returns an
  error or not.
\<close>

theorem getSubPackages_frame:
  "(let p' = fst (fst (getSubPackages E p tr)) in
      Package.Name p' = Package.Name p \<and>
      Package.ImportPath p' = Package.ImportPath p \<and>
      Package.Doc p' = Package.Doc p \<and>
      Package.Synopsis p' = Package.Synopsis p \<and>
      Package.Constants p' = Package.Constants p \<and>
      Package.Variables p' = Package.Variables p \<and>
      Package.Functions p' = Package.Functions p \<and>
      Package.Types p' = Package.Types p)"
  by (simp add: getSubPackages_eq Let_def split: sum.splits prod.splits)

theorem getSubPackages_frame_witness:
  "Package.ImportPath (fst (fst (getSubPackages example_env (example_pkg ''p'') []))) = ''p''
   \<and> Package.Name (fst (fst (getSubPackages example_env (example_pkg ''r'') []))) = []"
  using getSubPackages_frame [of example_env "example_pkg ''p''" "[]"]
    getSubPackages_frame [of example_env "example_pkg ''r''" "[]"]
  by (simp add: Let_def example_pkg_def zeroPackage_def)

section \<open>Normalisation keeps length and order\<close>

text \<open>
  Each of the three loops allocates the result at the length of its input and stores
  the image of element \<open>i\<close> at index \<open>i\<close>; together that is a \<open>map\<close>.
\<close>

lemma fold_store_prefix:
  "k \<le> length rv \<Longrightarrow> length xs = length rv \<Longrightarrow>
   fold (\<lambda>i rv. rv[i := g (xs ! i)]) [0..<k] rv = map g (take k xs) @ drop k rv"
proof (induction k)
  case 0
  then show ?case by simp
next
  case (Suc k)
  then have k: "k < length rv" "k < length xs" by simp_all
  have "fold (\<lambda>i rv. rv[i := g (xs ! i)]) [0..<Suc k] rv
        = (map g (take k xs) @ drop k rv)[k := g (xs ! k)]"
    using Suc by simp
  also have "\<dots> = map g (take k xs) @ (drop k rv)[0 := g (xs ! k)]"
    using k by (simp add: list_update_append)
  also have "\<dots> = map g (take k xs) @ g (xs ! k) # drop (Suc k) rv"
    using k by (simp add: Cons_nth_drop_Suc [symmetric])
  also have "\<dots> = map g (take (Suc k) xs) @ drop (Suc k) rv"
    using k by (simp add: take_Suc_conv_app_nth)
  finally show ?case .
qed

lemma fold_store_all:
  "fold (\<lambda>i rv. rv[i := g (xs ! i)]) [0..<length xs] (replicate (length xs) z) = map g xs"
  using fold_store_prefix [of "length xs" "replicate (length xs) z" xs g] by simp

lemma pkgValues_map: "pkgValues L vs fset = map (\<lambda>v. newValue L v fset) vs"
  unfolding pkgValues_def by (rule fold_store_all)

lemma pkgFunctions_map: "pkgFunctions L fs fset = map (\<lambda>f. newFunction L f fset) fs"
  unfolding pkgFunctions_def by (rule fold_store_all)

lemma pkgTypes_map: "pkgTypes L ts fset = map (\<lambda>t. newType L t fset) ts"
  unfolding pkgTypes_def by (rule fold_store_all)

text \<open>
  C6. \<^verbatim>\<open>pkgValues\<close>, \<^verbatim>\<open>pkgFunctions\<close> and \<^verbatim>\<open>pkgTypes\<close> return a
  sequence as long as the raw one, whose entry at each index is built from the raw
  declaration at that index. The four nested sequences of a normalised type are
  \<^verbatim>\<open>pkgValues\<close> and \<^verbatim>\<open>pkgFunctions\<close> of the raw type's nested sequences, and
  the four sequences of the package are those of the raw package, so the same holds
  for them.
\<close>

theorem normalization_keeps_length_and_order:
  "length (pkgValues L vs fset) = length vs \<and>
   (\<forall>i<length vs. pkgValues L vs fset ! i = newValue L (vs ! i) fset) \<and>
   length (pkgFunctions L fs fset) = length fs \<and>
   (\<forall>i<length fs. pkgFunctions L fs fset ! i = newFunction L (fs ! i) fset) \<and>
   length (pkgTypes L ts fset) = length ts \<and>
   (\<forall>i<length ts. pkgTypes L ts fset ! i = newType L (ts ! i) fset) \<and>
   Type.Constants (newType L t fset) = pkgValues L (doc_Type.Consts t) fset \<and>
   Type.Variables (newType L t fset) = pkgValues L (doc_Type.Vars t) fset \<and>
   Type.Functions (newType L t fset) = pkgFunctions L (doc_Type.Funcs t) fset \<and>
   Type.Methods (newType L t fset) = pkgFunctions L (doc_Type.Methods t) fset \<and>
   Package.Constants (pdoc L fset dpkg) = pkgValues L (doc_Package.Consts dpkg) fset \<and>
   Package.Variables (pdoc L fset dpkg) = pkgValues L (doc_Package.Vars dpkg) fset \<and>
   Package.Functions (pdoc L fset dpkg) = pkgFunctions L (doc_Package.Funcs dpkg) fset \<and>
   Package.Types (pdoc L fset dpkg) = pkgTypes L (doc_Package.Types dpkg) fset"
  by (simp add: pkgValues_map pkgFunctions_map pkgTypes_map newType_def pdoc_def)

theorem normalization_keeps_length_and_order_witness:
  "(1::nat) < length example_consts \<and>
   length (pkgValues example_lib example_consts ()) = 2 \<and>
   pkgValues example_lib example_consts () ! 1 =
     \<lparr>Value.Doc = ''B is second.'', Value.Decl = ''const B = 2''\<rparr> \<and>
   (1::nat) < length example_funcs \<and>
   pkgFunctions example_lib example_funcs () ! 1 =
     \<lparr>Function.Doc = ''G stops.'', Function.Name = ''G'', Function.Decl = ''func G()''\<rparr> \<and>
   (0::nat) < length [example_type] \<and>
   pkgTypes example_lib [example_type] () ! 0 = newType example_lib example_type () \<and>
   length (Type.Methods (newType example_lib example_type ())) = 2"
proof -
  note all = normalization_keeps_length_and_order [of example_lib example_consts "()"
      example_funcs "[example_type]" example_type "example_dpkg ''p''"]
  have v: "(1::nat) < length example_consts" by (simp add: example_consts_def)
  have f: "(1::nat) < length example_funcs" by (simp add: example_funcs_def)
  have t: "(0::nat) < length [example_type]" by simp
  from all v have "pkgValues example_lib example_consts () ! 1 =
      newValue example_lib (example_consts ! 1) ()"
    by blast
  moreover from all f have "pkgFunctions example_lib example_funcs () ! 1 =
      newFunction example_lib (example_funcs ! 1) ()"
    by blast
  moreover from all t have "pkgTypes example_lib [example_type] () ! 0 =
      newType example_lib ([example_type] ! 0) ()"
    by blast
  moreover from all have "length (pkgValues example_lib example_consts ()) =
      length example_consts"
    by blast
  moreover from all have "Type.Methods (newType example_lib example_type ()) =
      pkgFunctions example_lib (doc_Type.Methods example_type) ()"
    by blast
  moreover from all have "length (pkgFunctions example_lib example_funcs ()) =
      length example_funcs"
    by blast
  ultimately show ?thesis
    using v f t
    by (simp add: example_consts_def example_funcs_def example_type_def example_lib_def
        newValue_def newFunction_def decl_def)
qed

section \<open>The entry point\<close>

lemma pdoc_ImportPath: "Package.ImportPath (pdoc L fset dpkg) = doc_Package.ImportPath dpkg"
  by (simp add: pdoc_def)

lemma New_fst:
  "fst (New L E name tr) =
     (case conf_Load L name of
        Inl err \<Rightarrow> Inr (zeroPackage, Some err)
      | Inr prog \<Rightarrow>
          (case prog_Package prog name of
             None \<Rightarrow> Inl NilPointerDereference
           | Some pkg \<Rightarrow>
               Inr (fst (getSubPackages E
                     (pdoc L (prog_Fset prog) (doc_New L (prog_Fset prog) pkg)) tr))))"
  by (auto simp add: New_def Let_def split: sum.splits prod.splits option.splits)

text \<open>
  What \<^verbatim>\<open>New\<close> does on every path through it, with every field written out. A
  load error gives the zero package and that error. A program that holds no package
  under the given name makes line 49 panic. Otherwise the declarations \<open>d\<close> that
  \<^verbatim>\<open>doc.New\<close> grouped are normalised: when no root can be listed, the package
  built from them is returned with no sub-package and the listing error; when a
  root resolves, it is returned with no error and with the names the discovery
  recorded.
\<close>

lemma New_outcomes:
  "(conf_Load L name = Inl err \<longrightarrow>
      fst (New L E name tr) =
        Inr (\<lparr>Package.Name = [], Package.ImportPath = [], Package.Doc = [],
              Package.Synopsis = [], Package.Constants = [], Package.Variables = [],
              Package.Functions = [], Package.Types = [], SubPackages = []\<rparr>, Some err)) \<and>
   (conf_Load L name = Inr prog \<and> prog_Package prog name = None \<longrightarrow>
      fst (New L E name tr) = Inl NilPointerDereference) \<and>
   (conf_Load L name = Inr prog \<and> prog_Package prog name = Some pkg \<and>
    d = doc_New L (prog_Fset prog) pkg \<and>
    built =
      \<lparr>Package.Name = doc_Package.Name d, Package.ImportPath = doc_Package.ImportPath d,
       Package.Doc = doc_Package.Doc d,
       Package.Synopsis = doc_Synopsis L (doc_Package.Doc d),
       Package.Constants = map (\<lambda>v. newValue L v (prog_Fset prog)) (doc_Package.Consts d),
       Package.Variables = map (\<lambda>v. newValue L v (prog_Fset prog)) (doc_Package.Vars d),
       Package.Functions = map (\<lambda>f. newFunction L f (prog_Fset prog)) (doc_Package.Funcs d),
       Package.Types = map (\<lambda>t. newType L t (prog_Fset prog)) (doc_Package.Types d),
       SubPackages = []\<rparr> \<longrightarrow>
      (\<forall>err tr1. getSubPackages_root E built tr = (Inl err, tr1) \<longrightarrow>
         fst (New L E name tr) = Inr (built, Some err)) \<and>
      (\<forall>root fis tr1. getSubPackages_root E built tr = (Inr (root, fis), tr1) \<longrightarrow>
         fst (New L E name tr) =
           Inr (built\<lparr>SubPackages :=
                  map FileInfo.Name
                    (filter (\<lambda>fi. FileInfo.IsDir fi \<and>
                       contains_go_entry E (filepath_Join E [root, FileInfo.Name fi])) fis)\<rparr>,
                None)))"
proof -
  have built: "pdoc L fset d =
      \<lparr>Package.Name = doc_Package.Name d, Package.ImportPath = doc_Package.ImportPath d,
       Package.Doc = doc_Package.Doc d,
       Package.Synopsis = doc_Synopsis L (doc_Package.Doc d),
       Package.Constants = map (\<lambda>v. newValue L v fset) (doc_Package.Consts d),
       Package.Variables = map (\<lambda>v. newValue L v fset) (doc_Package.Vars d),
       Package.Functions = map (\<lambda>f. newFunction L f fset) (doc_Package.Funcs d),
       Package.Types = map (\<lambda>t. newType L t fset) (doc_Package.Types d),
       SubPackages = []\<rparr>" for fset d
    by (simp add: pdoc_def pkgValues_map pkgFunctions_map pkgTypes_map)
  show ?thesis
    by (simp add: New_fst getSubPackages_eq zeroPackage_def built [symmetric])
      (simp add: pdoc_def)
qed

lemma example_lib_simps:
  "conf_Load example_lib ''p'' = Inr example_prog"
  "conf_Load example_lib ''r'' = Inr example_prog"
  "conf_Load example_lib ''./sub'' = Inr example_prog"
  "conf_Load example_lib ''nope'' = Inl (ErrOther ''cannot find package'')"
  "doc_New example_lib fset pkg = example_dpkg pkg"
  "doc_Package.ImportPath (example_dpkg path) = path"
  by (simp_all add: example_lib_def example_dpkg_def)

lemma example_prog_simps:
  "prog_Fset example_prog = ()"
  "prog_Package example_prog ''p'' = Some ''p''"
  "prog_Package example_prog ''r'' = Some ''r''"
  "prog_Package example_prog ''x/sub'' = Some ''x/sub''"
  "prog_Package example_prog ''./sub'' = None"
  by (simp_all add: example_prog_def)

text \<open>
  C2. The claim: for every import path \<^verbatim>\<open>New\<close> has exactly three outcomes, a
  load error with the zero model, a model with a discovery error, or a model with
  no error. Three of the four paths through the code are these (the concrete
  library below takes each of them), but the code has a fourth. For the relative
  import path \<^verbatim>\<open>./sub\<close> loading succeeds, the program holds the package under
  its canonical path \<^verbatim>\<open>x/sub\<close> only, the lookup by the given name returns nil,
  and \<^verbatim>\<open>New\<close> panics instead of returning.
\<close>

theorem New_nil_package_panics:
  "conf_Load example_lib ''./sub'' = Inr example_prog \<and>
   prog_Package example_prog ''x/sub'' = Some ''x/sub'' \<and>
   prog_Package example_prog ''./sub'' = None \<and>
   fst (New example_lib example_env ''./sub'' []) = Inl NilPointerDereference \<and>
   fst (New example_lib example_env ''nope'' []) =
     Inr (zeroPackage, Some (ErrOther ''cannot find package'')) \<and>
   fst (New example_lib example_env ''r'' []) =
     Inr (pdoc example_lib () (example_dpkg ''r''), Some ErrNotExist) \<and>
   fst (New example_lib example_env ''p'' []) =
     Inr ((pdoc example_lib () (example_dpkg ''p''))\<lparr>SubPackages := [''a'', ''e'']\<rparr>, None)"
proof -
  have "fst (getSubPackages example_env (pdoc example_lib () (example_dpkg ''p'')) []) =
      ((pdoc example_lib () (example_dpkg ''p''))\<lparr>SubPackages := [''a'', ''e'']\<rparr>, None)"
    by (simp add: example_discovery_p pdoc_ImportPath example_lib_simps) (simp add: pdoc_def)
  then show ?thesis
    by (simp add: New_fst example_lib_simps example_prog_simps example_discovery_r
        pdoc_ImportPath)
qed

end
